theory Spec2Isabelle
  imports Main "HOL-Library.Sublist"
begin

section \<open>JavaScript strings and numbers\<close>

text \<open>
  A JavaScript string is modelled as a \<^typ>\<open>string\<close>: one \<^typ>\<open>char\<close> per code unit, for
  the code units below 256. The white space of \<open>String.prototype.trim\<close> and of
  \<open>parseInt\<close> in that range is TAB, LF, VT, FF, CR, SPACE and NBSP.
\<close>

definition is_ws :: "char \<Rightarrow> bool" where
  "is_ws c = (c = CHR 0x09 \<or> c = CHR 0x0A \<or> c = CHR 0x0B \<or> c = CHR 0x0C \<or>
              c = CHR 0x0D \<or> c = CHR 0x20 \<or> c = CHR 0xA0)"

text \<open>\<open>s.trim()\<close>\<close>

definition trim :: "string \<Rightarrow> string" where
  "trim s = rev (dropWhile is_ws (rev (dropWhile is_ws s)))"

text \<open>\<open>s.includes(t)\<close>: \<open>t\<close> occurs in \<open>s\<close> as a contiguous run of code units.\<close>

primrec str_includes :: "string \<Rightarrow> string \<Rightarrow> bool" where
  "str_includes [] t = (t = [])"
| "str_includes (c # s) t = (prefix t (c # s) \<or> str_includes s t)"

text \<open>\<open>s.split(c)\<close> for a separator of one code unit; the result is never empty.\<close>

fun split_on :: "char \<Rightarrow> string \<Rightarrow> string list" where
  "split_on c [] = [[]]"
| "split_on c (x # xs) =
     (if x = c then [] # split_on c xs
      else (case split_on c xs of [] \<Rightarrow> [[x]] | p # ps \<Rightarrow> (x # p) # ps))"

text \<open>\<open>s.toLowerCase()\<close> on code units below 256: A-Z and the Latin-1 capitals.\<close>

definition lower_char :: "char \<Rightarrow> char" where
  "lower_char c =
     (let n = (of_char c :: nat)
      in if (65 \<le> n \<and> n \<le> 90) \<or> (192 \<le> n \<and> n \<le> 222 \<and> n \<noteq> 215)
         then char_of (n + 32) else c)"

definition toLowerCase :: "string \<Rightarrow> string" where
  "toLowerCase s = map lower_char s"

text \<open>
  \<open>c.toUpperCase()\<close> for one code unit: a-z and the Latin-1 small letters; sharp s
  becomes \<open>SS\<close>. The upper-case forms of 0xB5 and 0xFF lie above code unit 255 and
  are left as they are here.
\<close>

definition upper_char :: "char \<Rightarrow> string" where
  "upper_char c =
     (let n = (of_char c :: nat)
      in if (97 \<le> n \<and> n \<le> 122) \<or> (224 \<le> n \<and> n \<le> 254 \<and> n \<noteq> 247)
         then [char_of (n - 32)]
         else if n = 223 then ''SS'' else [c])"

text \<open>
  A JavaScript number that the program reads from text or counts: \<open>NaN\<close> or an
  integer. \<open>parseInt\<close> rounds an integer of more than 53 bits to the nearest double;
  rounding is monotone and keeps every integer below \<open>2^53\<close>, so comparisons with the
  small constants of this program (10, 100, a list length) are those of the exact value.
\<close>

datatype jsnum = NaN | Num int

definition digit :: "nat \<Rightarrow> char" where
  "digit d = (if d = 0 then CHR ''0'' else if d = 1 then CHR ''1'' else if d = 2 then CHR ''2''
     else if d = 3 then CHR ''3'' else if d = 4 then CHR ''4'' else if d = 5 then CHR ''5''
     else if d = 6 then CHR ''6'' else if d = 7 then CHR ''7'' else if d = 8 then CHR ''8''
     else CHR ''9'')"

fun show_nat :: "nat \<Rightarrow> string" where
  "show_nat n = (if n < 10 then [digit n] else show_nat (n div 10) @ [digit (n mod 10)])"

declare show_nat.simps [simp del]

text \<open>The decimal text of an integer, as a template literal prints it.\<close>

definition show_int :: "int \<Rightarrow> string" where
  "show_int i = (if i < 0 then CHR ''-'' # show_nat (nat (- i)) else show_nat (nat i))"

definition show_num :: "jsnum \<Rightarrow> string" where
  "show_num x = (case x of NaN \<Rightarrow> ''NaN'' | Num i \<Rightarrow> show_int i)"

text \<open>The value of a digit in radix 10 or 16, if it is one.\<close>

definition digit_val :: "nat \<Rightarrow> char \<Rightarrow> nat option" where
  "digit_val radix c =
     (let n = (of_char c :: nat)
      in if 48 \<le> n \<and> n \<le> 57 then Some (n - 48)
         else if radix = 16 \<and> 97 \<le> n \<and> n \<le> 102 then Some (n - 87)
         else if radix = 16 \<and> 65 \<le> n \<and> n \<le> 70 then Some (n - 55)
         else None)"

text \<open>
  The longest prefix of digits, read left to right: \<open>acc\<close> is the value so far and
  \<open>seen\<close> says whether a digit was read.
\<close>

fun parse_digits :: "nat \<Rightarrow> string \<Rightarrow> nat \<Rightarrow> bool \<Rightarrow> nat option" where
  "parse_digits radix [] acc seen = (if seen then Some acc else None)"
| "parse_digits radix (c # cs) acc seen =
     (case digit_val radix c of
        Some d \<Rightarrow> parse_digits radix cs (acc * radix + d) True
      | None \<Rightarrow> (if seen then Some acc else None))"

text \<open>
  \<open>parseInt(s)\<close> with no radix: leading white space is skipped, then an optional
  sign, then an optional \<open>0x\<close> or \<open>0X\<close> (radix 16), then the longest run of digits;
  anything after it is ignored, and no digit at all gives \<open>NaN\<close>.
\<close>

definition parseInt :: "string \<Rightarrow> jsnum" where
  "parseInt s =
     (let s1 = dropWhile is_ws s;
          neg = (case s1 of c # _ \<Rightarrow> c = CHR ''-'' | [] \<Rightarrow> False);
          s2 = (case s1 of c # cs \<Rightarrow> (if c = CHR ''-'' \<or> c = CHR ''+'' then cs else s1) | [] \<Rightarrow> s1);
          hex = (case s2 of a # b # _ \<Rightarrow> a = CHR ''0'' \<and> (b = CHR ''x'' \<or> b = CHR ''X'') | _ \<Rightarrow> False);
          s3 = (if hex then drop 2 s2 else s2)
      in case parse_digits (if hex then 16 else 10) s3 0 False of
           None \<Rightarrow> NaN
         | Some v \<Rightarrow> Num (if neg then - int v else int v))"

text \<open>\<open>Math.max(a, x)\<close> and \<open>Math.min(a, x)\<close> for a finite constant \<open>a\<close>.\<close>

definition Math_max :: "int \<Rightarrow> jsnum \<Rightarrow> jsnum" where
  "Math_max a x = (case x of NaN \<Rightarrow> NaN | Num i \<Rightarrow> Num (max a i))"

definition Math_min :: "int \<Rightarrow> jsnum \<Rightarrow> jsnum" where
  "Math_min a x = (case x of NaN \<Rightarrow> NaN | Num i \<Rightarrow> Num (min a i))"

section \<open>Events\<close>

text \<open>
  A value parsed from JSON, or \<open>undefined\<close> for a property that is absent. The numbers
  of the event feed (issue numbers, line counts) are integers, small enough to print in
  plain decimal.
\<close>

datatype jsvalue =
    JUndefined
  | JNull
  | JBool bool
  | JNum int
  | JStr string
  | JArr "jsvalue list"
  | JObj "(string \<times> jsvalue) list"

text \<open>
  One event of the feed: \<open>event.type\<close>, \<open>event.repo.name\<close>, \<open>event.payload\<close> and
  \<open>event.created_at\<close>. The type, the repository name and the time stamp are strings;
  the payload depends on the type and stays an untyped value, \<open>JUndefined\<close> when the
  event has none. An event without \<open>created_at\<close> behaves as one whose time stamp
  is not a date.
\<close>

record event =
  e_type :: string
  e_repo_name :: string
  e_payload :: jsvalue
  e_created_at :: string

section \<open>The platform\<close>

text \<open>
  Library functions of the runtime that the program calls and does not define:
  \<open>new Date(s).getTime()\<close> (\<open>None\<close> for an invalid date, whose time value is NaN),
  \<open>toISOString\<close> and \<open>toLocaleString\<close> of a valid date, \<open>path.join\<close>,
  \<open>JSON.parse\<close> of a response body (\<open>None\<close> where it throws) and
  \<open>JSON.stringify(events, null, 2)\<close>.
\<close>

record platform =
  date_parse :: "string \<Rightarrow> int option"
  date_toISOString :: "int \<Rightarrow> string"
  date_toLocaleString :: "int \<Rightarrow> string"
  path_join :: "string \<Rightarrow> string \<Rightarrow> string"
  JSON_parse :: "string \<Rightarrow> event list option"
  JSON_stringify :: "event list \<Rightarrow> string"

text \<open>\<open>a < b\<close> on two dates compares their time values; it is false when one is NaN.\<close>

definition date_lt :: "int option \<Rightarrow> int option \<Rightarrow> bool" where
  "date_lt a b = (case a of None \<Rightarrow> False | Some x \<Rightarrow> (case b of None \<Rightarrow> False | Some y \<Rightarrow> x < y))"

section \<open>The event filter\<close>

text \<open>
  The filter criteria \<open>{type, repo, dateFrom, dateTo}\<close>; \<open>None\<close> is a property that is
  absent or \<open>undefined\<close>.
\<close>

record criteria =
  c_type :: "string option"
  c_repo :: "string option"
  c_dateFrom :: "string option"
  c_dateTo :: "string option"

definition no_criteria :: criteria where
  "no_criteria = \<lparr>c_type = None, c_repo = None, c_dateFrom = None, c_dateTo = None\<rparr>"

text \<open>
  The callback of \<open>events.filter\<close> in \<open>filterEvents\<close>. A criterion guards its test with
  its truthiness (\<open>criteria.type && ...\<close>): an absent, undefined or empty string tests
  nothing.
\<close>

definition passes :: "platform \<Rightarrow> criteria \<Rightarrow> event \<Rightarrow> bool" where
  "passes P c e =
     (if (case c_type c of None \<Rightarrow> False | Some t \<Rightarrow> t \<noteq> [] \<and> e_type e \<noteq> t) then False
      else if (case c_repo c of None \<Rightarrow> False
               | Some r \<Rightarrow> r \<noteq> [] \<and> \<not> str_includes (e_repo_name e) r) then False
      else if (case c_dateFrom c of None \<Rightarrow> False
               | Some d \<Rightarrow> d \<noteq> [] \<and> date_lt (date_parse P (e_created_at e)) (date_parse P d))
           then False
      else if (case c_dateTo c of None \<Rightarrow> False
               | Some d \<Rightarrow> d \<noteq> [] \<and> date_lt (date_parse P d) (date_parse P (e_created_at e)))
           then False
      else True)"

definition filterEvents :: "platform \<Rightarrow> event list \<Rightarrow> criteria \<Rightarrow> event list" where
  "filterEvents P events c = filter (passes P c) events"

subsection \<open>The filter as the specification words it\<close>

text \<open>A criterion is unset when it is absent, undefined or the empty string.\<close>

definition unset :: "string option \<Rightarrow> bool" where
  "unset x = (x = None \<or> x = Some [])"

text \<open>
  \<open>a \<ge> b\<close> and \<open>a \<le> b\<close> on time values, as JavaScript compares numbers: false when
  one of them is NaN.
\<close>

definition date_ge :: "int option \<Rightarrow> int option \<Rightarrow> bool" where
  "date_ge a b = (case a of None \<Rightarrow> False | Some x \<Rightarrow> (case b of None \<Rightarrow> False | Some y \<Rightarrow> x \<ge> y))"

definition date_le :: "int option \<Rightarrow> int option \<Rightarrow> bool" where
  "date_le a b = date_ge b a"

text \<open>
  The conjunction of the specification: (type unset or equal) and (repo unset or
  contained) and (dateFrom unset or time stamp \<open>\<ge>\<close> dateFrom) and (dateTo unset or
  time stamp \<open>\<le>\<close> dateTo).
\<close>

definition spec_passes :: "platform \<Rightarrow> criteria \<Rightarrow> event \<Rightarrow> bool" where
  "spec_passes P c e =
     ((unset (c_type c) \<or> Some (e_type e) = c_type c) \<and>
      (unset (c_repo c) \<or> (\<exists>r. c_repo c = Some r \<and> str_includes (e_repo_name e) r)) \<and>
      (unset (c_dateFrom c) \<or>
         (\<exists>d. c_dateFrom c = Some d \<and> date_ge (date_parse P (e_created_at e)) (date_parse P d))) \<and>
      (unset (c_dateTo c) \<or>
         (\<exists>d. c_dateTo c = Some d \<and> date_le (date_parse P (e_created_at e)) (date_parse P d))))"

text \<open>
  The same conjunction with the date tests as the code makes them: an event is dropped
  only when its time stamp is earlier than dateFrom or later than dateTo, which
  is never the case when one of the two dates does not parse.
\<close>

definition amended_passes :: "platform \<Rightarrow> criteria \<Rightarrow> event \<Rightarrow> bool" where
  "amended_passes P c e =
     ((unset (c_type c) \<or> Some (e_type e) = c_type c) \<and>
      (unset (c_repo c) \<or> (\<exists>r. c_repo c = Some r \<and> str_includes (e_repo_name e) r)) \<and>
      (unset (c_dateFrom c) \<or>
         (\<exists>d. c_dateFrom c = Some d \<and>
              (date_parse P (e_created_at e) = None \<or> date_parse P d = None \<or>
               date_ge (date_parse P (e_created_at e)) (date_parse P d)))) \<and>
      (unset (c_dateTo c) \<or>
         (\<exists>d. c_dateTo c = Some d \<and>
              (date_parse P (e_created_at e) = None \<or> date_parse P d = None \<or>
               date_le (date_parse P (e_created_at e)) (date_parse P d)))))"

text \<open>A platform whose dates are decimal numbers of milliseconds (for the examples).\<close>

text \<open>
  A platform for the examples: a date is a decimal number of milliseconds, and the only
  JSON text is that of the empty array.
\<close>

definition example_event :: "string \<Rightarrow> string \<Rightarrow> string \<Rightarrow> event" where
  "example_event t r d = \<lparr>e_type = t, e_repo_name = r, e_payload = JObj [], e_created_at = d\<rparr>"

definition example_platform :: platform where
  "example_platform =
     \<lparr>date_parse = (\<lambda>s. case parseInt s of NaN \<Rightarrow> None | Num i \<Rightarrow> Some i),
      date_toISOString = show_int,
      date_toLocaleString = show_int,
      path_join = (\<lambda>d f. d @ ''/'' @ f),
      JSON_parse = (\<lambda>s. if s = ''[]'' then Some [] else None),
      JSON_stringify = (\<lambda>evs. case evs of [] \<Rightarrow> ''[]'' | _ \<Rightarrow> ''[...]'')\<rparr>"

section \<open>The activity fetcher\<close>

text \<open>
  A thrown or rejected error: \<open>new Error(message)\<close>, or a \<open>TypeError\<close> or
  \<open>RangeError\<close> of the runtime, each with its \<open>message\<close>.
\<close>

datatype js_error = Error string | TypeError string | RangeError string

definition message :: "js_error \<Rightarrow> string" where
  "message err = (case err of Error m \<Rightarrow> m | TypeError m \<Rightarrow> m | RangeError m \<Rightarrow> m)"

text \<open>
  What \<open>https.get\<close> delivers: a response (its status code, its headers and the chunks
  of its body, in order), or an \<open>error\<close> event with the message of the transport error.
\<close>

record response =
  statusCode :: int
  headers :: "string \<Rightarrow> string option"
  chunks :: "string list"

datatype http_outcome = Responded response | ConnectionFailed string

text \<open>The path of the request.\<close>

definition request_path :: "string \<Rightarrow> jsnum \<Rightarrow> jsnum \<Rightarrow> string" where
  "request_path username page perPage =
     ''/users/'' @ username @ ''/events?page='' @ show_num page @ ''&per_page='' @ show_num perPage"

text \<open>
  The line \<open>console.warn\<close> prints for a response of status 200 whose
  \<open>x-ratelimit-remaining\<close> header is below 10, if it prints one.
\<close>

definition rateLimitWarning :: "response \<Rightarrow> string option" where
  "rateLimitWarning res =
     (case headers res ''x-ratelimit-remaining'' of
        None \<Rightarrow> None
      | Some r \<Rightarrow>
          (if r \<noteq> [] \<and> (case parseInt r of NaN \<Rightarrow> False | Num n \<Rightarrow> n < 10)
           then Some (''Warning: '' @ r @ '' API requests remaining'') else None))"

text \<open>
  The handler of the response's \<open>end\<close> event: it settles the promise. \<open>parse\<close> is
  \<open>JSON.parse\<close>, \<open>None\<close> where it throws.
\<close>

definition on_end :: "(string \<Rightarrow> 'j option) \<Rightarrow> string \<Rightarrow> response \<Rightarrow> js_error + 'j" where
  "on_end parse username res =
     (let data = concat (chunks res)
      in if statusCode res = 200 then
           (case parse data of
              Some v \<Rightarrow> Inr v
            | None \<Rightarrow> Inl (Error ''Failed to parse GitHub API response''))
         else if statusCode res = 404 then
           Inl (Error (''User '' @ [CHR 0x27] @ username @ [CHR 0x27] @ '' not found''))
         else if statusCode res = 403 then
           Inl (Error ''API rate limit exceeded. Please try again later.'')
         else Inl (Error (''HTTP Error: '' @ show_int (statusCode res))))"

text \<open>
  \<open>fetchGitHubActivity(username, page, perPage)\<close>; \<open>net\<close> is the network, from the path
  of a request to what comes back. \<open>Inl\<close> is a rejection.
\<close>

definition fetchGitHubActivity ::
  "(string \<Rightarrow> 'j option) \<Rightarrow> (string \<Rightarrow> http_outcome) \<Rightarrow> string \<Rightarrow> jsnum \<Rightarrow> jsnum \<Rightarrow> js_error + 'j" where
  "fetchGitHubActivity parse net username page perPage =
     (case net (request_path username page perPage) of
        Responded res \<Rightarrow> on_end parse username res
      | ConnectionFailed m \<Rightarrow> Inl (Error (''Failed to connect: '' @ m)))"

text \<open>
  The fetcher as the specification words it: it resolves on every success status
  (2xx) with a body that parses.
\<close>

definition spec_on_end :: "(string \<Rightarrow> 'j option) \<Rightarrow> string \<Rightarrow> response \<Rightarrow> js_error + 'j" where
  "spec_on_end parse username res =
     (if 200 \<le> statusCode res \<and> statusCode res \<le> 299 then
        (case parse (concat (chunks res)) of
           Some v \<Rightarrow> Inr v
         | None \<Rightarrow> Inl (Error ''Failed to parse GitHub API response''))
      else if statusCode res = 404 then
        Inl (Error (''User '' @ [CHR 0x27] @ username @ [CHR 0x27] @ '' not found''))
      else if statusCode res = 403 then
        Inl (Error ''API rate limit exceeded. Please try again later.'')
      else Inl (Error (''HTTP Error: '' @ show_int (statusCode res))))"

section \<open>The one-shot helper\<close>

text \<open>
  The names every object inherits from \<open>Object.prototype\<close>: a lookup of one of them
  in an object literal finds the inherited value, not \<open>undefined\<close>.
\<close>

definition object_prototype_keys :: "string list" where
  "object_prototype_keys =
     [''constructor'', ''__defineGetter__'', ''__defineSetter__'', ''hasOwnProperty'',
      ''__lookupGetter__'', ''__lookupSetter__'', ''isPrototypeOf'', ''propertyIsEnumerable'',
      ''toString'', ''valueOf'', ''__proto__'', ''toLocaleString'']"

text \<open>
  The callback of \<open>events.reduce\<close>: \<open>acc\<close> maps a repository name to its events, in
  the order met. An inherited name is truthy and has no \<open>push\<close>.
\<close>

definition group_step ::
  "(string \<Rightarrow> event list option) \<Rightarrow> event \<Rightarrow> js_error + (string \<Rightarrow> event list option)" where
  "group_step acc ev =
     (let repo = e_repo_name ev
      in case acc repo of
           Some es \<Rightarrow> Inr (acc(repo \<mapsto> es @ [ev]))
         | None \<Rightarrow>
             (if repo \<in> set object_prototype_keys
              then Inl (TypeError ''acc[repo].push is not a function'')
              else Inr (acc(repo \<mapsto> [ev]))))"

fun group_events ::
  "(string \<Rightarrow> event list option) \<Rightarrow> event list \<Rightarrow> js_error + (string \<Rightarrow> event list option)" where
  "group_events acc [] = Inr acc"
| "group_events acc (ev # evs) =
     (case group_step acc ev of Inl err \<Rightarrow> Inl err | Inr acc' \<Rightarrow> group_events acc' evs)"

record activity =
  username :: string
  repos :: "string \<Rightarrow> event list option"

text \<open>
  The \<open>catch\<close> of \<open>getUserActivity\<close>: an error whose message includes \<open>not found\<close>
  becomes \<open>null\<close> (\<open>None\<close>), any other error is thrown again.
\<close>

definition on_catch :: "js_error \<Rightarrow> js_error + activity option" where
  "on_catch err = (if str_includes (message err) ''not found'' then Inr None else Inl err)"

definition getUserActivity ::
  "(string \<Rightarrow> event list option) \<Rightarrow> (string \<Rightarrow> http_outcome) \<Rightarrow> string \<Rightarrow> js_error + activity option" where
  "getUserActivity parse net user =
     (case fetchGitHubActivity parse net user (Num 1) (Num 30) of
        Inl err \<Rightarrow> on_catch err
      | Inr events \<Rightarrow>
          (case group_events Map.empty events of
             Inl err \<Rightarrow> on_catch err
           | Inr grouped \<Rightarrow> Inr (Some \<lparr>username = user, repos = grouped\<rparr>)))"

section \<open>The display configuration\<close>

record config =
  colors :: bool
  dateFormat :: string
  detailedView :: bool
  eventsPerPage :: jsnum
  outputDir :: string

definition defaultConfig :: config where
  "defaultConfig =
     \<lparr>colors = True, dateFormat = ''local'', detailedView = True, eventsPerPage = Num 30,
      outputDir = ''./github-activity-logs''\<rparr>"

text \<open>The four keys of \<open>questions\<close> in \<open>configureDisplay\<close>, in the order asked.\<close>

datatype config_key = Colors | DateFormat | DetailedView | EventsPerPage

definition questions :: "config_key list" where
  "questions = [Colors, DateFormat, DetailedView, EventsPerPage]"

text \<open>
  The body of the loop over the questions, for one key and its answer. Only the test
  for a blank answer trims it: the value stored is computed from the answer as typed.
\<close>

definition configure_key :: "config_key \<Rightarrow> string \<Rightarrow> config \<Rightarrow> config" where
  "configure_key key answer cfg =
     (if trim answer \<noteq> [] then
        (case key of
           EventsPerPage \<Rightarrow> cfg\<lparr>eventsPerPage := Math_min 100 (Math_max 10 (parseInt answer))\<rparr>
         | Colors \<Rightarrow> cfg\<lparr>colors := (toLowerCase answer = ''true'')\<rparr>
         | DetailedView \<Rightarrow> cfg\<lparr>detailedView := (toLowerCase answer = ''true'')\<rparr>
         | DateFormat \<Rightarrow> cfg\<lparr>dateFormat := answer\<rparr>)
      else cfg)"

text \<open>
  Standard input is the list of the lines still to come; a question takes the first.
  With no line left the question is never answered (\<open>None\<close>).
\<close>

fun configure_keys :: "config_key list \<Rightarrow> config \<Rightarrow> string list \<Rightarrow> (config \<times> string list) option" where
  "configure_keys [] cfg inp = Some (cfg, inp)"
| "configure_keys (key # keys) cfg [] = None"
| "configure_keys (key # keys) cfg (answer # inp) = configure_keys keys (configure_key key answer cfg) inp"

definition configureDisplay :: "config \<Rightarrow> string list \<Rightarrow> (config \<times> string list) option" where
  "configureDisplay cfg inp = configure_keys questions cfg inp"

section \<open>The event formatter\<close>

text \<open>\<open>v\<close> is truthy.\<close>

definition truthy :: "jsvalue \<Rightarrow> bool" where
  "truthy v =
     (case v of JUndefined \<Rightarrow> False | JNull \<Rightarrow> False | JBool b \<Rightarrow> b | JNum n \<Rightarrow> n \<noteq> 0
      | JStr s \<Rightarrow> s \<noteq> [] | JArr _ \<Rightarrow> True | JObj _ \<Rightarrow> True)"

definition nullish :: "jsvalue \<Rightarrow> bool" where
  "nullish v = (v = JUndefined \<or> v = JNull)"

text \<open>
  \<open>v.k\<close> for a value that is neither \<open>undefined\<close> nor \<open>null\<close>. \<open>JObj\<close> lists the own
  properties of an object. None of the names this program reads is inherited from a
  prototype, but \<open>length\<close> of a string or an array.
\<close>

definition prop_of :: "jsvalue \<Rightarrow> string \<Rightarrow> jsvalue" where
  "prop_of v k =
     (case v of
        JObj kvs \<Rightarrow> (case map_of kvs k of Some x \<Rightarrow> x | None \<Rightarrow> JUndefined)
      | JArr xs \<Rightarrow> (if k = ''length'' then JNum (int (length xs)) else JUndefined)
      | JStr s \<Rightarrow> (if k = ''length'' then JNum (int (length s)) else JUndefined)
      | _ \<Rightarrow> JUndefined)"

text \<open>\<open>v.k\<close>: a \<open>TypeError\<close> when \<open>v\<close> is \<open>undefined\<close> or \<open>null\<close>.\<close>

definition get_prop :: "jsvalue \<Rightarrow> string \<Rightarrow> js_error + jsvalue" where
  "get_prop v k =
     (if v = JUndefined then
        Inl (TypeError (''Cannot read properties of undefined (reading '' @ [CHR 0x27] @ k @ [CHR 0x27] @ '')''))
      else if v = JNull then
        Inl (TypeError (''Cannot read properties of null (reading '' @ [CHR 0x27] @ k @ [CHR 0x27] @ '')''))
      else Inr (prop_of v k))"

text \<open>\<open>v?.k\<close>\<close>

definition opt_prop :: "jsvalue \<Rightarrow> string \<Rightarrow> jsvalue" where
  "opt_prop v k = (if nullish v then JUndefined else prop_of v k)"

text \<open>
  \<open>${v}\<close> in a template literal, and \<open>xs.join(sep)\<close>. An array prints its elements
  joined by commas, \<open>undefined\<close> and \<open>null\<close> among them as nothing; an object prints
  \<open>[object Object]\<close>, unless an own property hides \<open>toString\<close>.
\<close>

fun to_string :: "jsvalue \<Rightarrow> js_error + string"
  and join_values :: "string \<Rightarrow> jsvalue list \<Rightarrow> js_error + string" where
  "to_string JUndefined = Inr ''undefined''"
| "to_string JNull = Inr ''null''"
| "to_string (JBool b) = Inr (if b then ''true'' else ''false'')"
| "to_string (JNum n) = Inr (show_int n)"
| "to_string (JStr s) = Inr s"
| "to_string (JArr xs) = join_values '','' xs"
| "to_string (JObj kvs) =
     (if ''toString'' \<in> set (map fst kvs)
      then Inl (TypeError ''Cannot convert object to primitive value'')
      else Inr ''[object Object]'')"
| "join_values sep [] = Inr []"
| "join_values sep (v # vs) =
     (case (if v = JUndefined \<or> v = JNull then Inr [] else to_string v) of
        Inl err \<Rightarrow> Inl err
      | Inr a \<Rightarrow>
          (if vs = [] then Inr a
           else (case join_values sep vs of Inl err \<Rightarrow> Inl err | Inr b \<Rightarrow> Inr (a @ sep @ b))))"

text \<open>Sequencing of computations that may throw.\<close>

definition bind :: "js_error + 'a \<Rightarrow> ('a \<Rightarrow> js_error + 'b) \<Rightarrow> js_error + 'b" where
  "bind m f = (case m of Inl err \<Rightarrow> Inl err | Inr x \<Rightarrow> f x)"

text \<open>\<open>xs.map(f)\<close>, stopping at the first element on which \<open>f\<close> throws.\<close>

fun map_throwing :: "('a \<Rightarrow> js_error + 'b) \<Rightarrow> 'a list \<Rightarrow> js_error + 'b list" where
  "map_throwing f [] = Inr []"
| "map_throwing f (x # xs) =
     (case f x of
        Inl err \<Rightarrow> Inl err
      | Inr y \<Rightarrow> (case map_throwing f xs of Inl err \<Rightarrow> Inl err | Inr ys \<Rightarrow> Inr (y # ys)))"

text \<open>The ANSI colour codes.\<close>

definition colors_reset :: string where "colors_reset = CHR 0x1B # ''[0m''"
definition colors_bright :: string where "colors_bright = CHR 0x1B # ''[1m''"
definition colors_green :: string where "colors_green = CHR 0x1B # ''[32m''"
definition colors_yellow :: string where "colors_yellow = CHR 0x1B # ''[33m''"
definition colors_blue :: string where "colors_blue = CHR 0x1B # ''[34m''"
definition colors_magenta :: string where "colors_magenta = CHR 0x1B # ''[35m''"
definition colors_cyan :: string where "colors_cyan = CHR 0x1B # ''[36m''"
definition colors_red :: string where "colors_red = CHR 0x1B # ''[31m''"

text \<open>
  \<open>eventSettings[type] || eventSettings.default\<close>, as the pair of \<open>settings.color\<close>
  and \<open>settings.icon\<close>. The icons lie above code unit 255; each stands here as the
  bytes of its literal in the source file and is only ever copied to the output. A type
  that names an inherited property finds a value with neither colour nor icon.
\<close>

definition eventSettings :: "string \<Rightarrow> string \<times> string" where
  "eventSettings t =
     (if t = ''PushEvent'' then
        (colors_green, [CHR 0xC3, CHR 0xB0, CHR 0xC5, CHR 0xB8, CHR 0xE2, CHR 0x80, CHR 0x9C])
      else if t = ''CreateEvent'' then
        (colors_cyan, [CHR 0xC3, CHR 0xA2, CHR 0xC5, CHR 0x93, CHR 0xC2, CHR 0xA8])
      else if t = ''IssuesEvent'' then
        (colors_yellow, [CHR 0xC3, CHR 0xB0, CHR 0xC5, CHR 0xB8, CHR 0xE2, CHR 0x80, CHR 0xBA])
      else if t = ''PullRequestEvent'' then
        (colors_magenta,
         [CHR 0xC3, CHR 0xB0, CHR 0xC5, CHR 0xB8, CHR 0xE2, CHR 0x80, CHR 0x9D, CHR 0xE2, CHR 0x80, CHR 0x9E])
      else if t = ''WatchEvent'' then
        (colors_blue, [CHR 0xC3, CHR 0xA2, CHR 0xC2, CHR 0xAD])
      else if t = ''ForkEvent'' then
        (colors_cyan,
         [CHR 0xC3, CHR 0xB0, CHR 0xC5, CHR 0xB8, CHR 0xE2, CHR 0x80, CHR 0x9D, CHR 0xC2, CHR 0xB1])
      else if t = ''DeleteEvent'' then
        (colors_red,
         [CHR 0xC3, CHR 0xB0, CHR 0xC5, CHR 0xB8, CHR 0xE2, CHR 0x80, CHR 0x94, CHR 0xE2, CHR 0x80, CHR 0x98,
          CHR 0xC3, CHR 0xAF, CHR 0xC2, CHR 0xB8])
      else if t = ''ReleaseEvent'' then
        (colors_green,
         [CHR 0xC3, CHR 0xB0, CHR 0xC5, CHR 0xB8, CHR 0xE2, CHR 0x80, CHR 0x9C, CHR 0xC2, CHR 0xA6])
      else if t = ''CommentEvent'' then
        (colors_yellow,
         [CHR 0xC3, CHR 0xB0, CHR 0xC5, CHR 0xB8, CHR 0xE2, CHR 0x80, CHR 0x99, CHR 0xC2, CHR 0xAC])
      else if t \<in> set object_prototype_keys then (''undefined'', ''undefined'')
      else
        (colors_reset,
         [CHR 0xC3, CHR 0xB0, CHR 0xC5, CHR 0xB8, CHR 0xE2, CHR 0x80, CHR 0x9D, CHR 0xC2, CHR 0xA7]))"

text \<open>
  \<open>formatDate(dateString, format)\<close>: \<open>toISOString\<close> throws a \<open>RangeError\<close> on an
  invalid date, \<open>toLocaleString\<close> prints it as \<open>Invalid Date\<close>.
\<close>

definition formatDate :: "platform \<Rightarrow> string \<Rightarrow> string \<Rightarrow> js_error + string" where
  "formatDate P dateString format =
     (if format = ''iso'' then
        (case date_parse P dateString of
           None \<Rightarrow> Inl (RangeError ''Invalid time value'')
         | Some t \<Rightarrow> Inr (date_toISOString P t))
      else
        (case date_parse P dateString of
           None \<Rightarrow> Inr ''Invalid Date''
         | Some t \<Rightarrow> Inr (date_toLocaleString P t)))"

text \<open>\<open>capitalize(str)\<close>: a truthy value that is no string has no \<open>charAt\<close>.\<close>

definition capitalize :: "jsvalue \<Rightarrow> js_error + string" where
  "capitalize str =
     (if truthy str then
        (case str of
           JStr s \<Rightarrow> Inr (case s of [] \<Rightarrow> [] | c # cs \<Rightarrow> upper_char c @ cs)
         | _ \<Rightarrow> Inl (TypeError ''str.charAt is not a function''))
      else Inr [])"

text \<open>\<open>formatEventTitle(event)\<close>\<close>

definition formatEventTitle :: "event \<Rightarrow> js_error + string" where
  "formatEventTitle ev =
     (let t = e_type ev; repo = e_repo_name ev; p = e_payload ev
      in if t = ''PushEvent'' then
           bind (get_prop p ''commits'') (\<lambda>commits.
           bind (let n = opt_prop commits ''length'' in to_string (if truthy n then n else JNum 0)) (\<lambda>n.
           Inr (''Pushed '' @ n @ '' commit(s) to '' @ repo)))
         else if t = ''CreateEvent'' then
           bind (get_prop p ''ref_type'') (\<lambda>ref_type.
           bind (to_string ref_type) (\<lambda>rt.
           bind (get_prop p ''ref'') (\<lambda>ref.
           bind (if truthy ref
                 then bind (get_prop p ''ref'') (\<lambda>ref'.
                      bind (to_string ref') (\<lambda>r. Inr ('' '' @ [CHR 0x27] @ r @ [CHR 0x27])))
                 else Inr []) (\<lambda>r.
           Inr (''Created '' @ rt @ r @ '' in '' @ repo)))))
         else if t = ''IssuesEvent'' then
           bind (get_prop p ''action'') (\<lambda>action.
           bind (capitalize action) (\<lambda>a.
           bind (get_prop p ''issue'') (\<lambda>issue.
           bind (to_string (opt_prop issue ''number'')) (\<lambda>n.
           Inr (a @ '' issue #'' @ n @ '' in '' @ repo)))))
         else if t = ''PullRequestEvent'' then
           bind (get_prop p ''action'') (\<lambda>action.
           bind (capitalize action) (\<lambda>a.
           bind (get_prop p ''pull_request'') (\<lambda>pull_request.
           bind (to_string (opt_prop pull_request ''number'')) (\<lambda>n.
           Inr (a @ '' pull request #'' @ n @ '' in '' @ repo)))))
         else if t = ''WatchEvent'' then Inr (''Starred '' @ repo)
         else if t = ''ForkEvent'' then
           bind (get_prop p ''forkee'') (\<lambda>forkee.
           bind (to_string (opt_prop forkee ''full_name'')) (\<lambda>n.
           Inr (''Forked '' @ repo @ '' to '' @ n)))
         else if t = ''DeleteEvent'' then
           bind (get_prop p ''ref_type'') (\<lambda>ref_type.
           bind (to_string ref_type) (\<lambda>rt.
           bind (get_prop p ''ref'') (\<lambda>ref.
           bind (to_string ref) (\<lambda>r.
           Inr (''Deleted '' @ rt @ '' '' @ [CHR 0x27] @ r @ [CHR 0x27] @ '' from '' @ repo)))))
         else if t = ''ReleaseEvent'' then
           bind (get_prop p ''action'') (\<lambda>action.
           bind (capitalize action) (\<lambda>a.
           bind (get_prop p ''release'') (\<lambda>release.
           bind (to_string (opt_prop release ''tag_name'')) (\<lambda>n.
           Inr (a @ '' release '' @ n @ '' in '' @ repo)))))
         else Inr (t @ '' on '' @ repo))"

text \<open>\<open>v.slice(0, 7)\<close>: strings and arrays have \<open>slice\<close>.\<close>

definition slice_0_7 :: "jsvalue \<Rightarrow> js_error + jsvalue" where
  "slice_0_7 v =
     (case v of
        JUndefined \<Rightarrow> Inl (TypeError (''Cannot read properties of undefined (reading '' @ [CHR 0x27] @ ''slice'' @ [CHR 0x27] @ '')''))
      | JNull \<Rightarrow> Inl (TypeError (''Cannot read properties of null (reading '' @ [CHR 0x27] @ ''slice'' @ [CHR 0x27] @ '')''))
      | JStr s \<Rightarrow> Inr (JStr (take 7 s))
      | JArr xs \<Rightarrow> Inr (JArr (take 7 xs))
      | _ \<Rightarrow> Inl (TypeError ''c.sha.slice is not a function''))"

text \<open>\<open>v.split('\n')[0]\<close>: only strings have \<open>split\<close>.\<close>

definition first_line :: "jsvalue \<Rightarrow> js_error + string" where
  "first_line v =
     (case v of
        JUndefined \<Rightarrow> Inl (TypeError (''Cannot read properties of undefined (reading '' @ [CHR 0x27] @ ''split'' @ [CHR 0x27] @ '')''))
      | JNull \<Rightarrow> Inl (TypeError (''Cannot read properties of null (reading '' @ [CHR 0x27] @ ''split'' @ [CHR 0x27] @ '')''))
      | JStr s \<Rightarrow> Inr (case split_on (CHR 0x0A) s of [] \<Rightarrow> [] | l # _ \<Rightarrow> l)
      | _ \<Rightarrow> Inl (TypeError ''c.message.split is not a function''))"

text \<open>The callback of \<open>commits.map\<close>: the line of one commit.\<close>

definition commit_line :: "jsvalue \<Rightarrow> js_error + string" where
  "commit_line c =
     bind (get_prop c ''sha'') (\<lambda>sha.
     bind (slice_0_7 sha) (\<lambda>short.
     bind (to_string short) (\<lambda>a.
     bind (get_prop c ''message'') (\<lambda>msg.
     bind (first_line msg) (\<lambda>b.
     Inr (CHR 0x0A # ''    - '' @ a @ '' '' @ b))))))"

text \<open>\<open>const { k, ... } = payload\<close> throws on \<open>undefined\<close> and \<open>null\<close>.\<close>

definition destructure :: "string \<Rightarrow> jsvalue \<Rightarrow> js_error + jsvalue" where
  "destructure k p =
     (if p = JUndefined then
        Inl (TypeError (''Cannot destructure property '' @ [CHR 0x27] @ k @ [CHR 0x27] @ '' of '' @
                        [CHR 0x27] @ ''payload'' @ [CHR 0x27] @ '' as it is undefined.''))
      else if p = JNull then
        Inl (TypeError (''Cannot destructure property '' @ [CHR 0x27] @ k @ [CHR 0x27] @ '' of '' @
                        [CHR 0x27] @ ''payload'' @ [CHR 0x27] @ '' as it is null.''))
      else Inr p)"

text \<open>\<open>${v.k}\<close> and \<open>${v.k || 0}\<close>\<close>

definition show_prop :: "jsvalue \<Rightarrow> string \<Rightarrow> js_error + string" where
  "show_prop v k = bind (get_prop v k) to_string"

definition show_prop_or_0 :: "jsvalue \<Rightarrow> string \<Rightarrow> js_error + string" where
  "show_prop_or_0 v k = bind (get_prop v k) (\<lambda>x. to_string (if truthy x then x else JNum 0))"

text \<open>The \<open>switch\<close> of \<open>formatEvent\<close> that builds \<open>details\<close>, entered when \<open>config.detailedView\<close> holds.\<close>

definition event_details :: "event \<Rightarrow> js_error + string" where
  "event_details ev =
     (let t = e_type ev; p = e_payload ev
      in if t = ''PushEvent'' then
           bind (get_prop p ''commits'') (\<lambda>v.
           (case (if truthy v then v else JArr []) of
              JArr commits \<Rightarrow> bind (map_throwing commit_line commits) (\<lambda>ls. Inr (concat ls))
            | _ \<Rightarrow> Inl (TypeError ''commits.map is not a function'')))
         else if t = ''IssuesEvent'' then
           bind (destructure ''action'' p) (\<lambda>p'.
           let issue = prop_of p' ''issue''
           in bind (show_prop issue ''title'') (\<lambda>title.
              bind (get_prop issue ''labels'') (\<lambda>v.
              bind (case (if truthy v then v else JArr []) of
                      JArr labels \<Rightarrow>
                        bind (map_throwing (\<lambda>l. get_prop l ''name'') labels) (\<lambda>names.
                        bind (join_values '', '' names) (\<lambda>j. Inr (if j = [] then ''none'' else j)))
                    | _ \<Rightarrow> Inl (TypeError ''(issue.labels || []).map is not a function'')) (\<lambda>labels.
              bind (show_prop issue ''html_url'') (\<lambda>url.
              Inr (CHR 0x0A # ''    Title: '' @ title @ CHR 0x0A # ''    Labels: '' @ labels @
                   CHR 0x0A # ''    URL: '' @ url))))))
         else if t = ''PullRequestEvent'' then
           bind (destructure ''action'' p) (\<lambda>p'.
           let pull_request = prop_of p' ''pull_request''
           in bind (show_prop pull_request ''title'') (\<lambda>title.
              bind (show_prop_or_0 pull_request ''additions'') (\<lambda>additions.
              bind (show_prop_or_0 pull_request ''deletions'') (\<lambda>deletions.
              bind (show_prop pull_request ''html_url'') (\<lambda>url.
              Inr (CHR 0x0A # ''    Title: '' @ title @ CHR 0x0A # ''    Changes: +'' @ additions @
                   '' -'' @ deletions @ CHR 0x0A # ''    URL: '' @ url))))))
         else if t = ''ReleaseEvent'' then
           bind (destructure ''release'' p) (\<lambda>p'.
           let release = prop_of p' ''release''
           in bind (show_prop release ''tag_name'') (\<lambda>tag.
              bind (show_prop release ''name'') (\<lambda>name.
              bind (show_prop release ''html_url'') (\<lambda>url.
              Inr (CHR 0x0A # ''    Tag: '' @ tag @ CHR 0x0A # ''    Name: '' @ name @
                   CHR 0x0A # ''    URL: '' @ url)))))
         else Inr [])"

text \<open>\<open>colorize(text, color)\<close> of \<open>formatEvent\<close>\<close>

definition colorize :: "config \<Rightarrow> string \<Rightarrow> string \<Rightarrow> string" where
  "colorize cfg txt color = (if colors cfg then color @ txt @ colors_reset else txt)"

text \<open>\<open>formatEvent(event, config)\<close>\<close>

definition formatEvent :: "platform \<Rightarrow> event \<Rightarrow> config \<Rightarrow> js_error + string" where
  "formatEvent P ev cfg =
     bind (formatDate P (e_created_at ev) (dateFormat cfg)) (\<lambda>timestamp.
     let settings = eventSettings (e_type ev);
         timeStr = colorize cfg (''['' @ timestamp @ '']'') colors_bright
     in bind (if detailedView cfg then event_details ev else Inr []) (\<lambda>details.
        bind (formatEventTitle ev) (\<lambda>title.
        Inr (colorize cfg (timeStr @ '' '' @ snd settings @ '' '' @ title @ '' '' @ details)
               (fst settings)))))"

section \<open>The file exporter\<close>

text \<open>
  The files written so far, from path to content, and what the run meets outside the
  program: the clock, the network, and the failures of \<open>fs.mkdir\<close> and
  \<open>fs.writeFile\<close> (the message of the error, for the paths where they fail).
\<close>

type_synonym files = "string \<Rightarrow> string option"

record io =
  clock :: int
  network :: "string \<Rightarrow> http_outcome"
  mkdir_fails :: "string \<Rightarrow> string option"
  writeFile_fails :: "string \<Rightarrow> string option"

text \<open>\<open>s.replace(/[:.]/g, '-')\<close>\<close>

definition replace_colons_periods :: "string \<Rightarrow> string" where
  "replace_colons_periods s = map (\<lambda>c. if c = CHR '':'' \<or> c = CHR ''.'' then CHR ''-'' else c) s"

definition export_path :: "platform \<Rightarrow> io \<Rightarrow> string \<Rightarrow> config \<Rightarrow> string" where
  "export_path P w user cfg =
     path_join P (outputDir cfg)
       (user @ ''-activity-'' @ replace_colons_periods (date_toISOString P (clock w)) @ ''.json'')"

text \<open>\<open>saveToFile(events, username, config)\<close>: the files after it, or the error it throws.\<close>

definition saveToFile :: "platform \<Rightarrow> io \<Rightarrow> event list \<Rightarrow> string \<Rightarrow> config \<Rightarrow> files \<Rightarrow> js_error + files" where
  "saveToFile P w events user cfg fs =
     (let filepath = export_path P w user cfg
      in case mkdir_fails w (outputDir cfg) of
           Some m \<Rightarrow> Inl (Error (''Failed to save file: '' @ m))
         | None \<Rightarrow>
             (case writeFile_fails w filepath of
                Some m \<Rightarrow> Inl (Error (''Failed to save file: '' @ m))
              | None \<Rightarrow> Inr (fs(filepath \<mapsto> JSON_stringify P events))))"

section \<open>The interactive session\<close>

text \<open>
  The variables of \<open>main\<close>. The name of the user is fixed for the run and is passed
  along as an argument.
\<close>

record session =
  currentPage :: int
  currentEvents :: "event list"
  config :: config
  filterCriteria :: criteria

definition initial_session :: session where
  "initial_session =
     \<lparr>currentPage = 1, currentEvents = [], config = defaultConfig, filterCriteria = no_criteria\<rparr>"

text \<open>
  How one pass of the loop ends: the loop goes on (with the session, the lines of
  standard input still unread and the files), the process exits with a code, or a
  question waits for a line that never comes.
\<close>

datatype outcome = Continue session "string list" files | Exited nat files | Blocked

text \<open>A question reads the next line of standard input.\<close>

definition question :: "string list \<Rightarrow> (string \<times> string list) option" where
  "question inp = (case inp of [] \<Rightarrow> None | answer # rest \<Rightarrow> Some (answer, rest))"

text \<open>\<open>showMenu\<close>, \<open>showFilterMenu\<close> and the questions asked inside \<open>main\<close> resolve to the trimmed answer.\<close>

definition showMenu :: "string list \<Rightarrow> (string \<times> string list) option" where
  "showMenu inp = (case question inp of None \<Rightarrow> None | Some (answer, rest) \<Rightarrow> Some (trim answer, rest))"

definition showFilterMenu :: "string list \<Rightarrow> (string \<times> string list) option" where
  "showFilterMenu inp = (case question inp of None \<Rightarrow> None | Some (answer, rest) \<Rightarrow> Some (trim answer, rest))"

definition question_trimmed :: "string list \<Rightarrow> (string \<times> string list) option" where
  "question_trimmed inp = (case question inp of None \<Rightarrow> None | Some (answer, rest) \<Rightarrow> Some (trim answer, rest))"

text \<open>\<open>[...new Set(xs)]\<close>: the distinct elements, each at its first place.\<close>

fun new_Set :: "'a list \<Rightarrow> 'a list \<Rightarrow> 'a list" where
  "new_Set seen [] = rev seen"
| "new_Set seen (x # xs) = (if x \<in> set seen then new_Set seen xs else new_Set (x # seen) xs)"

text \<open>\<open>xs[parseInt(s) - 1]\<close>: \<open>undefined\<close> (\<open>None\<close>) at NaN and outside the list.\<close>

definition element_at :: "'a list \<Rightarrow> string \<Rightarrow> 'a option" where
  "element_at xs s =
     (case parseInt s of
        NaN \<Rightarrow> None
      | Num n \<Rightarrow> (if 1 \<le> n \<and> n \<le> int (length xs) then Some (xs ! nat (n - 1)) else None))"

text \<open>The inner \<open>switch (filterChoice)\<close>: the new criteria and the input left.\<close>

definition filter_menu :: "session \<Rightarrow> string \<Rightarrow> string list \<Rightarrow> (criteria \<times> string list) option" where
  "filter_menu st filterChoice inp =
     (let fc = filterCriteria st
      in if filterChoice = ''1'' then
           (let types = new_Set [] (map e_type (currentEvents st))
            in case question_trimmed inp of
                 None \<Rightarrow> None
               | Some (typeIdx, rest) \<Rightarrow> Some (fc\<lparr>c_type := element_at types typeIdx\<rparr>, rest))
         else if filterChoice = ''2'' then
           (case question_trimmed inp of
              None \<Rightarrow> None
            | Some (repoName, rest) \<Rightarrow> Some (fc\<lparr>c_repo := Some repoName\<rparr>, rest))
         else if filterChoice = ''3'' then
           (case question_trimmed inp of
              None \<Rightarrow> None
            | Some (answer, rest) \<Rightarrow>
                (case split_on (CHR '' '') answer of
                   [dFrom, dTo] \<Rightarrow> Some (fc\<lparr>c_dateFrom := Some dFrom, c_dateTo := Some dTo\<rparr>, rest)
                 | _ \<Rightarrow> Some (fc, rest)))
         else if filterChoice = ''4'' then Some (no_criteria, inp)
         else Some (fc, inp))"

text \<open>
  The \<open>switch (choice)\<close> of \<open>main\<close>. An error thrown in it reaches the \<open>catch\<close> of
  \<open>main\<close>, which exits with code 1.
\<close>

definition dispatch ::
  "platform \<Rightarrow> io \<Rightarrow> string \<Rightarrow> string \<Rightarrow> session \<Rightarrow> string list \<Rightarrow> files \<Rightarrow> outcome" where
  "dispatch P w user choice st inp fs =
     (if choice = ''1'' then
        (let page = currentPage st + 1
         in case fetchGitHubActivity (JSON_parse P) (network w) user (Num page) (eventsPerPage (config st)) of
              Inl err \<Rightarrow> Exited 1 fs
            | Inr events \<Rightarrow> Continue (st\<lparr>currentPage := page, currentEvents := events\<rparr>) inp fs)
      else if choice = ''2'' then
        (case showFilterMenu inp of
           None \<Rightarrow> Blocked
         | Some (filterChoice, rest) \<Rightarrow>
             (case filter_menu st filterChoice rest of
                None \<Rightarrow> Blocked
              | Some (fc, rest') \<Rightarrow> Continue (st\<lparr>filterCriteria := fc\<rparr>) rest' fs))
      else if choice = ''3'' then Continue (st\<lparr>filterCriteria := no_criteria\<rparr>) inp fs
      else if choice = ''4'' then
        (case saveToFile P w (currentEvents st) user (config st) fs of
           Inl err \<Rightarrow> Exited 1 fs
         | Inr fs' \<Rightarrow> Continue st inp fs')
      else if choice = ''5'' then
        (case configureDisplay (config st) inp of
           None \<Rightarrow> Blocked
         | Some (cfg, rest) \<Rightarrow> Continue (st\<lparr>config := cfg\<rparr>) rest fs)
      else if choice = ''6'' then Exited 0 fs
      else Continue st inp fs)"

text \<open>
  One pass of the \<open>while (true)\<close> loop: fetch when there are no events, filter, format
  each event for printing, ask for a choice and act on it.
\<close>

definition iteration :: "platform \<Rightarrow> io \<Rightarrow> string \<Rightarrow> session \<Rightarrow> string list \<Rightarrow> files \<Rightarrow> outcome" where
  "iteration P w user st inp fs =
     (case (if currentEvents st = []
            then fetchGitHubActivity (JSON_parse P) (network w) user (Num (currentPage st))
                   (eventsPerPage (config st))
            else Inr (currentEvents st)) of
        Inl err \<Rightarrow> Exited 1 fs
      | Inr events \<Rightarrow>
          (let st' = st\<lparr>currentEvents := events\<rparr>;
               filteredEvents = filterEvents P events (filterCriteria st')
           in case map_throwing (\<lambda>ev. formatEvent P ev (config st')) filteredEvents of
                Inl err \<Rightarrow> Exited 1 fs
              | Inr printed \<Rightarrow>
                  (case showMenu inp of
                     None \<Rightarrow> Blocked
                   | Some (choice, rest) \<Rightarrow> dispatch P w user choice st' rest fs)))"



section \<open>Facts about strings and numbers\<close>

lemma str_includes_iff: "str_includes s t \<longleftrightarrow> (\<exists>p q. s = p @ t @ q)"
proof (induction s)
  case Nil
  then show ?case by auto
next
  case (Cons c s)
  show ?case
  proof
    assume "str_includes (c # s) t"
    then consider "prefix t (c # s)" | "str_includes s t" by auto
    then show "\<exists>p q. c # s = p @ t @ q"
    proof cases
      case 1
      then obtain q where "c # s = t @ q" by (auto simp: prefix_def)
      then have "c # s = [] @ t @ q" by simp
      then show ?thesis by blast
    next
      case 2
      then obtain p q where "s = p @ t @ q" using Cons.IH by auto
      then have "c # s = (c # p) @ t @ q" by simp
      then show ?thesis by blast
    qed
  next
    assume "\<exists>p q. c # s = p @ t @ q"
    then obtain p q where pq: "c # s = p @ t @ q" by auto
    show "str_includes (c # s) t"
    proof (cases p)
      case Nil
      with pq have "prefix t (c # s)" by (simp add: prefix_def)
      then show ?thesis by simp
    next
      case (Cons a p')
      with pq have "s = p' @ t @ q" by simp
      then show ?thesis using Cons.IH by auto
    qed
  qed
qed

lemma str_includes_chars: "str_includes s t \<Longrightarrow> set t \<subseteq> set s"
  by (auto simp: str_includes_iff)

lemma str_includes_append_right: "str_includes s t \<Longrightarrow> str_includes (p @ s) t"
  by (induction p) auto

lemma digit_in_digits: "digit d \<in> set ''0123456789''"
  by (simp add: digit_def)

lemma show_nat_chars: "set (show_nat n) \<subseteq> set ''0123456789''"
proof (induction n rule: show_nat.induct)
  case (1 n)
  show ?case
  proof (cases "n < 10")
    case True
    then have "show_nat n = [digit n]" by (simp add: show_nat.simps)
    then show ?thesis using digit_in_digits [of n] by simp
  next
    case False
    then have eq: "show_nat n = show_nat (n div 10) @ [digit (n mod 10)]"
      by (subst show_nat.simps) simp
    from False 1 have "set (show_nat (n div 10)) \<subseteq> set ''0123456789''" by simp
    then show ?thesis using digit_in_digits [of "n mod 10"] unfolding eq by simp
  qed
qed

lemma show_nat_no_n: "CHR ''n'' \<notin> set (show_nat k)"
proof -
  have "CHR ''n'' \<notin> set ''0123456789''" by simp
  then show ?thesis using show_nat_chars [of k] by blast
qed

lemma show_int_no_n: "CHR ''n'' \<notin> set (show_int i)"
  by (simp add: show_int_def show_nat_no_n)

lemma http_error_message_not_swallowed:
  "\<not> str_includes (''HTTP Error: '' @ show_int code) ''not found''"
proof
  assume "str_includes (''HTTP Error: '' @ show_int code) ''not found''"
  then have "set ''not found'' \<subseteq> set (''HTTP Error: '' @ show_int code)"
    by (rule str_includes_chars)
  then have "CHR ''n'' \<in> set (''HTTP Error: '' @ show_int code)" by simp
  then have "CHR ''n'' \<in> set (show_int code)" by simp
  then show False by (simp add: show_int_no_n)
qed

lemma not_found_message_swallowed:
  "str_includes (''User '' @ [CHR 0x27] @ user @ [CHR 0x27] @ '' not found'') ''not found''"
proof -
  have "(''User '' @ [CHR 0x27] @ user @ [CHR 0x27] @ '' not found'') =
        (''User '' @ [CHR 0x27] @ user @ [CHR 0x27] @ '' '') @ ''not found'' @ []" by simp
  then show ?thesis unfolding str_includes_iff by blast
qed

lemma blank_parseInt: "trim s = [] \<Longrightarrow> parseInt s = NaN"
proof -
  assume "trim s = []"
  then have "dropWhile is_ws (rev (dropWhile is_ws s)) = []" by (simp add: trim_def)
  then have "\<forall>c \<in> set (rev (dropWhile is_ws s)). is_ws c" by (simp add: dropWhile_eq_Nil_conv)
  then have "dropWhile is_ws s = []"
    by (metis dropWhile_eq_Nil_conv hd_dropWhile hd_in_set set_rev)
  then show ?thesis by (simp add: parseInt_def Let_def del: dropWhile_eq_Nil_conv)
qed

section \<open>The event filter\<close>

lemma passes_iff_amended: "passes P c e = amended_passes P c e"
  by (auto simp: passes_def amended_passes_def unset_def date_lt_def date_ge_def date_le_def
      split: option.splits)

lemma example_date_parse:
  "date_parse example_platform ''999'' = Some 999"
  "date_parse example_platform ''1000'' = Some 1000"
  "date_parse example_platform ''1001'' = Some 1001"
  "date_parse example_platform ''garbage'' = None"
  by (simp_all add: example_platform_def parseInt_def is_ws_def digit_val_def)

text \<open>
  C3, as stated, fails. With \<open>dateFrom\<close> set to a valid date, an event whose time stamp
  does not parse does not satisfy "time stamp \<open>\<ge>\<close> dateFrom", yet \<open>filterEvents\<close>
  keeps it.
\<close>

theorem filterEvents_spec_counterexample:
  "filterEvents example_platform [example_event ''PushEvent'' ''acme/widgets'' ''garbage'']
     (no_criteria\<lparr>c_dateFrom := Some ''1000''\<rparr>) =
     [example_event ''PushEvent'' ''acme/widgets'' ''garbage''] \<and>
   filter (spec_passes example_platform (no_criteria\<lparr>c_dateFrom := Some ''1000''\<rparr>))
     [example_event ''PushEvent'' ''acme/widgets'' ''garbage''] = []"
  by (simp add: filterEvents_def passes_def spec_passes_def no_criteria_def example_event_def
      unset_def date_lt_def date_ge_def example_date_parse)

text \<open>
  C3, amended: \<open>filterEvents\<close> returns, in the order of the input, exactly the events
  that satisfy (type unset or empty, or equal to the event's type) and (repo unset or
  empty, or a substring of the repository name) and (dateFrom unset or empty, or the
  time stamp not earlier than dateFrom) and (dateTo unset or empty, or the time stamp not
  later than dateTo), where a time stamp or a bound that does not parse as a date
  excludes nothing. Both bounds are inclusive: with valid dates, an event stamped
  exactly dateFrom (or dateTo) passes, and one stamped one unit before dateFrom (or
  one unit after dateTo) does not. The result is a new list; the input is a value and
  stays what it was.
\<close>

theorem filterEvents_amended:
  "filterEvents P events c = filter (amended_passes P c) events \<and>
   subseq (filterEvents P events c) events \<and>
   (d \<noteq> [] \<and> date_parse P d = Some t \<and> date_parse P (e_created_at e1) = Some t \<and>
    date_parse P (e_created_at e0) = Some (t - 1) \<and> date_parse P (e_created_at e2) = Some (t + 1)
    \<longrightarrow> filterEvents P [e0, e1, e2] (no_criteria\<lparr>c_dateFrom := Some d\<rparr>) = [e1, e2] \<and>
        filterEvents P [e0, e1, e2] (no_criteria\<lparr>c_dateTo := Some d\<rparr>) = [e0, e1])"
proof (intro conjI impI)
  show "filterEvents P events c = filter (amended_passes P c) events"
    by (simp add: filterEvents_def passes_iff_amended [abs_def])
  show "subseq (filterEvents P events c) events"
    by (simp add: filterEvents_def)
next
  assume h: "d \<noteq> [] \<and> date_parse P d = Some t \<and> date_parse P (e_created_at e1) = Some t \<and>
    date_parse P (e_created_at e0) = Some (t - 1) \<and> date_parse P (e_created_at e2) = Some (t + 1)"
  then show "filterEvents P [e0, e1, e2] (no_criteria\<lparr>c_dateFrom := Some d\<rparr>) = [e1, e2]"
    by (simp add: filterEvents_def passes_def no_criteria_def date_lt_def)
  from h show "filterEvents P [e0, e1, e2] (no_criteria\<lparr>c_dateTo := Some d\<rparr>) = [e0, e1]"
    by (simp add: filterEvents_def passes_def no_criteria_def date_lt_def)
qed

theorem filterEvents_amended_witness:
  "filterEvents example_platform
     [example_event ''PushEvent'' ''acme/widgets'' ''999'',
      example_event ''WatchEvent'' ''acme/widgets'' ''1000'',
      example_event ''PushEvent'' ''acme/gadgets'' ''1001'']
     (no_criteria\<lparr>c_dateFrom := Some ''1000''\<rparr>) =
     [example_event ''WatchEvent'' ''acme/widgets'' ''1000'',
      example_event ''PushEvent'' ''acme/gadgets'' ''1001''] \<and>
   filterEvents example_platform
     [example_event ''PushEvent'' ''acme/widgets'' ''999'',
      example_event ''WatchEvent'' ''acme/widgets'' ''1000'',
      example_event ''PushEvent'' ''acme/gadgets'' ''1001'']
     (no_criteria\<lparr>c_dateTo := Some ''1000''\<rparr>) =
     [example_event ''PushEvent'' ''acme/widgets'' ''999'',
      example_event ''WatchEvent'' ''acme/widgets'' ''1000'']"
proof -
  have h: "''1000'' \<noteq> [] \<and> date_parse example_platform ''1000'' = Some 1000 \<and>
      date_parse example_platform (e_created_at (example_event ''WatchEvent'' ''acme/widgets'' ''1000'')) = Some 1000 \<and>
      date_parse example_platform (e_created_at (example_event ''PushEvent'' ''acme/widgets'' ''999'')) = Some (1000 - 1) \<and>
      date_parse example_platform (e_created_at (example_event ''PushEvent'' ''acme/gadgets'' ''1001'')) = Some (1000 + 1)"
    by (simp add: example_event_def example_date_parse)
  from filterEvents_amended
         [where P = example_platform and events = "[]" and c = no_criteria and d = "''1000''"
            and t = 1000
            and ?e1.0 = "example_event ''WatchEvent'' ''acme/widgets'' ''1000''"
            and ?e0.0 = "example_event ''PushEvent'' ''acme/widgets'' ''999''"
            and ?e2.0 = "example_event ''PushEvent'' ''acme/gadgets'' ''1001''"] h
  show ?thesis by blast
qed

text \<open>
  C8: with every criterion unset the filter returns its input, and filtering twice
  by the same criteria gives what filtering once gives.
\<close>

theorem filterEvents_identity_idempotent:
  "(unset (c_type c0) \<and> unset (c_repo c0) \<and> unset (c_dateFrom c0) \<and> unset (c_dateTo c0)
      \<longrightarrow> filterEvents P events c0 = events) \<and>
   filterEvents P events no_criteria = events \<and>
   filterEvents P (filterEvents P events c) c = filterEvents P events c"
proof (intro conjI impI)
  assume "unset (c_type c0) \<and> unset (c_repo c0) \<and> unset (c_dateFrom c0) \<and> unset (c_dateTo c0)"
  then have "\<And>e. passes P c0 e" by (auto simp: passes_def unset_def)
  then show "filterEvents P events c0 = events" by (simp add: filterEvents_def)
next
  show "filterEvents P events no_criteria = events"
    by (simp add: filterEvents_def passes_def no_criteria_def)
  show "filterEvents P (filterEvents P events c) c = filterEvents P events c"
    by (simp add: filterEvents_def)
qed

theorem filterEvents_identity_idempotent_witness:
  "filterEvents example_platform
     [example_event ''PushEvent'' ''acme/widgets'' ''999'',
      example_event ''WatchEvent'' ''acme/widgets'' ''1000'']
     (no_criteria\<lparr>c_repo := Some []\<rparr>) =
     [example_event ''PushEvent'' ''acme/widgets'' ''999'',
      example_event ''WatchEvent'' ''acme/widgets'' ''1000''] \<and>
   filterEvents example_platform
     (filterEvents example_platform
        [example_event ''PushEvent'' ''acme/widgets'' ''999'',
         example_event ''WatchEvent'' ''acme/widgets'' ''1000'']
        (no_criteria\<lparr>c_type := Some ''WatchEvent''\<rparr>))
     (no_criteria\<lparr>c_type := Some ''WatchEvent''\<rparr>) =
     [example_event ''WatchEvent'' ''acme/widgets'' ''1000'']"
proof -
  have h: "unset (c_type (no_criteria\<lparr>c_repo := Some []\<rparr>)) \<and>
           unset (c_repo (no_criteria\<lparr>c_repo := Some []\<rparr>)) \<and>
           unset (c_dateFrom (no_criteria\<lparr>c_repo := Some []\<rparr>)) \<and>
           unset (c_dateTo (no_criteria\<lparr>c_repo := Some []\<rparr>))"
    by (simp add: unset_def no_criteria_def)
  have once: "filterEvents example_platform
        [example_event ''PushEvent'' ''acme/widgets'' ''999'',
         example_event ''WatchEvent'' ''acme/widgets'' ''1000'']
        (no_criteria\<lparr>c_type := Some ''WatchEvent''\<rparr>) =
      [example_event ''WatchEvent'' ''acme/widgets'' ''1000'']"
    by (simp add: filterEvents_def passes_def no_criteria_def example_event_def)
  from filterEvents_identity_idempotent
         [where ?c0.0 = "no_criteria\<lparr>c_repo := Some []\<rparr>" and P = example_platform
            and events = "[example_event ''PushEvent'' ''acme/widgets'' ''999'',
                           example_event ''WatchEvent'' ''acme/widgets'' ''1000'']"
            and c = "no_criteria\<lparr>c_type := Some ''WatchEvent''\<rparr>"] h once
  show ?thesis by simp
qed

text \<open>
  C10: an event whose \<open>created_at\<close> does not parse as a date passes both date tests,
  whatever \<open>dateFrom\<close> and \<open>dateTo\<close> are. The callback keeps it exactly when it keeps
  it with the two date criteria removed, and keeps it always under criteria that hold
  dates only. So in every list, of events of any kind, such an event is in the result
  of \<open>filterEvents\<close> exactly when the type and the repository criteria keep it, and
  the events with an unparseable time stamp that the filter returns are those it returns
  with the date criteria removed.
\<close>

theorem unparseable_created_at_passes_dates:
  "(date_parse P (e_created_at e) = None \<longrightarrow>
      passes P c e = passes P (c\<lparr>c_dateFrom := None, c_dateTo := None\<rparr>) e \<and>
      passes P (no_criteria\<lparr>c_dateFrom := dFrom, c_dateTo := dTo\<rparr>) e \<and>
      (e \<in> set (filterEvents P events c) \<longleftrightarrow>
         e \<in> set events \<and> passes P (c\<lparr>c_dateFrom := None, c_dateTo := None\<rparr>) e)) \<and>
   filter (\<lambda>e. date_parse P (e_created_at e) = None) (filterEvents P events c) =
   filter (\<lambda>e. date_parse P (e_created_at e) = None)
     (filterEvents P events (c\<lparr>c_dateFrom := None, c_dateTo := None\<rparr>))"
proof -
  have one: "passes P c' e' = passes P (c'\<lparr>c_dateFrom := None, c_dateTo := None\<rparr>) e'"
    if "date_parse P (e_created_at e') = None" for c' e'
    using that by (simp add: passes_def date_lt_def split: option.splits)
  have dates_only: "passes P (no_criteria\<lparr>c_dateFrom := dFrom, c_dateTo := dTo\<rparr>) e"
    if "date_parse P (e_created_at e) = None"
    using that by (simp add: passes_def no_criteria_def date_lt_def split: option.splits)
  have lists: "filter (\<lambda>e. date_parse P (e_created_at e) = None) (filterEvents P events c) =
      filter (\<lambda>e. date_parse P (e_created_at e) = None)
        (filterEvents P events (c\<lparr>c_dateFrom := None, c_dateTo := None\<rparr>))"
    unfolding filterEvents_def filter_filter
    by (rule filter_cong) (use one in auto)
  show ?thesis
  proof (intro conjI impI)
    assume h: "date_parse P (e_created_at e) = None"
    show "passes P c e = passes P (c\<lparr>c_dateFrom := None, c_dateTo := None\<rparr>) e"
      using h by (rule one)
    show "passes P (no_criteria\<lparr>c_dateFrom := dFrom, c_dateTo := dTo\<rparr>) e"
      using h by (rule dates_only)
    show "e \<in> set (filterEvents P events c) \<longleftrightarrow>
         e \<in> set events \<and> passes P (c\<lparr>c_dateFrom := None, c_dateTo := None\<rparr>) e"
      using one [OF h, of c] by (auto simp: filterEvents_def)
  next
    show "filter (\<lambda>e. date_parse P (e_created_at e) = None) (filterEvents P events c) =
      filter (\<lambda>e. date_parse P (e_created_at e) = None)
        (filterEvents P events (c\<lparr>c_dateFrom := None, c_dateTo := None\<rparr>))"
      by (rule lists)
  qed
qed

theorem unparseable_created_at_passes_dates_witness:
  "filterEvents example_platform
     [example_event ''PushEvent'' ''acme/widgets'' ''999'',
      example_event ''PushEvent'' ''acme/widgets'' ''garbage'',
      example_event ''WatchEvent'' ''acme/widgets'' ''1001'']
     (no_criteria\<lparr>c_dateFrom := Some ''1000'', c_dateTo := Some ''1000''\<rparr>) =
     [example_event ''PushEvent'' ''acme/widgets'' ''garbage''] \<and>
   passes example_platform (no_criteria\<lparr>c_dateFrom := Some ''1000'', c_dateTo := Some ''1000''\<rparr>)
     (example_event ''PushEvent'' ''acme/widgets'' ''garbage'') \<and>
   example_event ''PushEvent'' ''acme/widgets'' ''garbage'' \<in>
     set (filterEvents example_platform
            [example_event ''PushEvent'' ''acme/widgets'' ''999'',
             example_event ''PushEvent'' ''acme/widgets'' ''garbage'',
             example_event ''WatchEvent'' ''acme/widgets'' ''1001'']
            (no_criteria\<lparr>c_dateFrom := Some ''1000'', c_dateTo := Some ''1000''\<rparr>))"
proof -
  have h: "date_parse example_platform
             (e_created_at (example_event ''PushEvent'' ''acme/widgets'' ''garbage'')) = None"
    by (simp add: example_event_def example_date_parse)
  have l: "filterEvents example_platform
     [example_event ''PushEvent'' ''acme/widgets'' ''999'',
      example_event ''PushEvent'' ''acme/widgets'' ''garbage'',
      example_event ''WatchEvent'' ''acme/widgets'' ''1001'']
     (no_criteria\<lparr>c_dateFrom := Some ''1000'', c_dateTo := Some ''1000''\<rparr>) =
     [example_event ''PushEvent'' ''acme/widgets'' ''garbage'']"
    by (simp add: filterEvents_def passes_def no_criteria_def example_event_def date_lt_def
        example_date_parse)
  from unparseable_created_at_passes_dates
         [where P = example_platform
            and e = "example_event ''PushEvent'' ''acme/widgets'' ''garbage''"
            and c = "no_criteria\<lparr>c_dateFrom := Some ''1000'', c_dateTo := Some ''1000''\<rparr>"
            and dFrom = "Some ''1000''" and dTo = "Some ''1000''"
            and events = "[example_event ''PushEvent'' ''acme/widgets'' ''999'',
                           example_event ''PushEvent'' ''acme/widgets'' ''garbage'',
                           example_event ''WatchEvent'' ''acme/widgets'' ''1001'']"] h
  have "passes example_platform (no_criteria\<lparr>c_dateFrom := Some ''1000'', c_dateTo := Some ''1000''\<rparr>)
          (example_event ''PushEvent'' ''acme/widgets'' ''garbage'')"
    by blast
  then show ?thesis using l by simp
qed

section \<open>The activity fetcher\<close>

text \<open>
  C2, as stated, fails. A response of status 201 is a success (2xx) and its body
  parses, yet \<open>fetchGitHubActivity\<close> rejects with the generic HTTP error: only status
  200 resolves.
\<close>

theorem fetchGitHubActivity_2xx_counterexample:
  "fetchGitHubActivity (JSON_parse example_platform)
     (\<lambda>path. Responded \<lparr>statusCode = 201, headers = (\<lambda>h. None), chunks = [''[]'']\<rparr>)
     ''octocat'' (Num 1) (Num 30) = Inl (Error ''HTTP Error: 201'') \<and>
   spec_on_end (JSON_parse example_platform) ''octocat''
     \<lparr>statusCode = 201, headers = (\<lambda>h. None), chunks = [''[]'']\<rparr> = Inr []"
  by (simp add: fetchGitHubActivity_def on_end_def spec_on_end_def example_platform_def
      show_int_def show_nat.simps digit_def)

text \<open>
  C2, amended: for every HTTP response, \<open>fetchGitHubActivity\<close> resolves, with the
  parsed body, exactly when the status is 200 and the body is valid JSON; it rejects
  with the parse error when the body of a 200 response is not valid JSON, with the
  not-found error on status 404, with the rate-limit error on status 403, and with the
  generic HTTP error carrying the status code on every other status, the other 2xx
  among them.
\<close>

theorem fetchGitHubActivity_outcomes:
  "net (request_path user page perPage) = Responded res \<longrightarrow>
     ((\<exists>v. fetchGitHubActivity parse net user page perPage = Inr v) \<longleftrightarrow>
        (statusCode res = 200 \<and> parse (concat (chunks res)) \<noteq> None)) \<and>
     (\<forall>v. fetchGitHubActivity parse net user page perPage = Inr v \<longrightarrow>
        parse (concat (chunks res)) = Some v) \<and>
     (statusCode res = 200 \<and> parse (concat (chunks res)) = None \<longrightarrow>
        fetchGitHubActivity parse net user page perPage =
          Inl (Error ''Failed to parse GitHub API response'')) \<and>
     (statusCode res = 404 \<longrightarrow>
        fetchGitHubActivity parse net user page perPage =
          Inl (Error (''User '' @ [CHR 0x27] @ user @ [CHR 0x27] @ '' not found''))) \<and>
     (statusCode res = 403 \<longrightarrow>
        fetchGitHubActivity parse net user page perPage =
          Inl (Error ''API rate limit exceeded. Please try again later.'')) \<and>
     (statusCode res \<noteq> 200 \<and> statusCode res \<noteq> 404 \<and> statusCode res \<noteq> 403 \<longrightarrow>
        fetchGitHubActivity parse net user page perPage =
          Inl (Error (''HTTP Error: '' @ show_int (statusCode res))))"
proof
  assume r: "net (request_path user page perPage) = Responded res"
  then have eq: "fetchGitHubActivity parse net user page perPage = on_end parse user res"
    by (simp add: fetchGitHubActivity_def)
  show "((\<exists>v. fetchGitHubActivity parse net user page perPage = Inr v) \<longleftrightarrow>
        (statusCode res = 200 \<and> parse (concat (chunks res)) \<noteq> None)) \<and>
     (\<forall>v. fetchGitHubActivity parse net user page perPage = Inr v \<longrightarrow>
        parse (concat (chunks res)) = Some v) \<and>
     (statusCode res = 200 \<and> parse (concat (chunks res)) = None \<longrightarrow>
        fetchGitHubActivity parse net user page perPage =
          Inl (Error ''Failed to parse GitHub API response'')) \<and>
     (statusCode res = 404 \<longrightarrow>
        fetchGitHubActivity parse net user page perPage =
          Inl (Error (''User '' @ [CHR 0x27] @ user @ [CHR 0x27] @ '' not found''))) \<and>
     (statusCode res = 403 \<longrightarrow>
        fetchGitHubActivity parse net user page perPage =
          Inl (Error ''API rate limit exceeded. Please try again later.'')) \<and>
     (statusCode res \<noteq> 200 \<and> statusCode res \<noteq> 404 \<and> statusCode res \<noteq> 403 \<longrightarrow>
        fetchGitHubActivity parse net user page perPage =
          Inl (Error (''HTTP Error: '' @ show_int (statusCode res))))"
    unfolding eq by (auto simp: on_end_def Let_def split: option.splits)
qed

theorem fetchGitHubActivity_outcomes_witness:
  "fetchGitHubActivity (JSON_parse example_platform)
     (\<lambda>path. Responded \<lparr>statusCode = 200, headers = (\<lambda>h. None), chunks = [''['', '']'']\<rparr>)
     ''octocat'' (Num 1) (Num 30) = Inr [] \<and>
   fetchGitHubActivity (JSON_parse example_platform)
     (\<lambda>path. Responded \<lparr>statusCode = 500, headers = (\<lambda>h. None), chunks = []\<rparr>)
     ''octocat'' (Num 1) (Num 30) = Inl (Error ''HTTP Error: 500'')"
proof -
  have p: "JSON_parse example_platform (concat [''['', '']'']) = Some []"
    by (simp add: example_platform_def)
  have s: "show_int 500 = ''500''"
    by (simp add: show_int_def show_nat.simps digit_def)
  have a: "fetchGitHubActivity (JSON_parse example_platform)
     (\<lambda>path. Responded \<lparr>statusCode = 200, headers = (\<lambda>h. None), chunks = [''['', '']'']\<rparr>)
     ''octocat'' (Num 1) (Num 30) = Inr []"
    using p fetchGitHubActivity_outcomes
      [where net = "\<lambda>path. Responded \<lparr>statusCode = 200, headers = (\<lambda>h. None), chunks = [''['', '']'']\<rparr>"
         and res = "\<lparr>statusCode = 200, headers = (\<lambda>h. None), chunks = [''['', '']'']\<rparr>"
         and parse = "JSON_parse example_platform" and user = "''octocat''"
         and page = "Num 1" and perPage = "Num 30"]
    by auto
  have b: "fetchGitHubActivity (JSON_parse example_platform)
     (\<lambda>path. Responded \<lparr>statusCode = 500, headers = (\<lambda>h. None), chunks = []\<rparr>)
     ''octocat'' (Num 1) (Num 30) = Inl (Error ''HTTP Error: 500'')"
    using s fetchGitHubActivity_outcomes
      [where net = "\<lambda>path. Responded \<lparr>statusCode = 500, headers = (\<lambda>h. None), chunks = []\<rparr>"
         and res = "\<lparr>statusCode = 500, headers = (\<lambda>h. None), chunks = []\<rparr>"
         and parse = "JSON_parse example_platform" and user = "''octocat''"
         and page = "Num 1" and perPage = "Num 30"]
    by simp
  from a b show ?thesis by simp
qed

section \<open>The one-shot helper\<close>

lemma getUserActivity_not_found_is_null:
  "net (request_path user (Num 1) (Num 30)) = Responded res \<Longrightarrow> statusCode res = 404 \<Longrightarrow>
   getUserActivity parse net user = Inr None"
  using not_found_message_swallowed [of user]
  by (simp add: getUserActivity_def fetchGitHubActivity_def on_end_def on_catch_def message_def)

lemma getUserActivity_response_errors_propagate:
  assumes "net (request_path user (Num 1) (Num 30)) = Responded res"
    and "statusCode res \<noteq> 404"
    and "fetchGitHubActivity parse net user (Num 1) (Num 30) = Inl err"
  shows "getUserActivity parse net user = Inl err"
proof -
  from assms(1) have eq: "fetchGitHubActivity parse net user (Num 1) (Num 30) = on_end parse user res"
    by (simp add: fetchGitHubActivity_def)
  consider (parse) "err = Error ''Failed to parse GitHub API response''"
    | (limit) "err = Error ''API rate limit exceeded. Please try again later.''"
    | (http) "err = Error (''HTTP Error: '' @ show_int (statusCode res))"
    using assms(2,3) unfolding eq
    by (auto simp: on_end_def Let_def split: if_splits option.splits)
  then have "\<not> str_includes (message err) ''not found''"
  proof cases
    case parse
    then show ?thesis by (simp add: message_def)
  next
    case limit
    then show ?thesis by (simp add: message_def)
  next
    case http
    then show ?thesis using http_error_message_not_swallowed [of "statusCode res"]
      by (simp add: message_def)
  qed
  then show ?thesis using assms(3) by (simp add: getUserActivity_def on_catch_def)
qed

lemma failed_to_connect_includes:
  "str_includes (''Failed to connect: '' @ m) ''not found'' = str_includes m ''not found''"
  by (cases m) auto

lemma getUserActivity_connection_error:
  "net (request_path user (Num 1) (Num 30)) = ConnectionFailed m \<Longrightarrow>
   getUserActivity parse net user =
     (if str_includes m ''not found'' then Inr None else Inl (Error (''Failed to connect: '' @ m)))"
  using failed_to_connect_includes [of m]
  by (simp add: getUserActivity_def fetchGitHubActivity_def on_catch_def message_def)

text \<open>
  C1 at its failing input: the fetch fails with a connection error whose transport
  message contains \<open>not found\<close>. The claim has \<open>getUserActivity\<close> throw that error;
  the code resolves to \<open>null\<close>, because it tells the not-found error from the others
  by looking for \<open>not found\<close> in the message.
\<close>

theorem getUserActivity_swallows_connection_error:
  "getUserActivity parse (\<lambda>path. ConnectionFailed ''proxy host not found'') user = Inr None"
  by (simp add: getUserActivity_def fetchGitHubActivity_def on_catch_def message_def)

section \<open>The reconfigure flow\<close>

lemma trim_surrounding_ws:
  assumes l: "\<forall>c \<in> set l. is_ws c" and r: "\<forall>c \<in> set r. is_ws c"
  shows "trim (l @ s @ r) = trim s"
proof -
  have a: "dropWhile is_ws (l @ s @ r) = dropWhile is_ws (s @ r)"
    using l by (simp add: dropWhile_append2)
  show ?thesis
  proof (cases "\<forall>c \<in> set s. is_ws c")
    case True
    then have x: "dropWhile is_ws (l @ s @ r) = []" using l r by auto
    from True have y: "dropWhile is_ws s = []" by simp
    show ?thesis unfolding trim_def x y by simp
  next
    case False
    then obtain x where "x \<in> set s" "\<not> is_ws x" by blast
    then have b: "dropWhile is_ws (s @ r) = dropWhile is_ws s @ r"
      by (simp add: dropWhile_append1)
    have "dropWhile is_ws (rev r @ rev (dropWhile is_ws s)) = dropWhile is_ws (rev (dropWhile is_ws s))"
      by (rule dropWhile_append2) (use r in auto)
    then show ?thesis unfolding trim_def a b by simp
  qed
qed

lemma showMenu_ignores_surrounding_ws:
  "\<forall>c \<in> set l. is_ws c \<Longrightarrow> \<forall>c \<in> set r. is_ws c \<Longrightarrow>
   showMenu ((l @ answer @ r) # inp) = showMenu (answer # inp) \<and>
   showFilterMenu ((l @ answer @ r) # inp) = showFilterMenu (answer # inp) \<and>
   question_trimmed ((l @ answer @ r) # inp) = question_trimmed (answer # inp)"
  by (simp add: showMenu_def showFilterMenu_def question_trimmed_def question_def trim_surrounding_ws)

lemma configure_eventsPerPage_clamped:
  "parseInt answer = Num n \<Longrightarrow>
   eventsPerPage (configure_key EventsPerPage answer cfg) = Num (min 100 (max 10 n)) \<and>
   10 \<le> min 100 (max 10 n) \<and> min 100 (max 10 n) \<le> 100"
  using blank_parseInt [of answer]
  by (auto simp: configure_key_def Math_min_def Math_max_def)

lemma configure_eventsPerPage_blank:
  "trim answer = [] \<Longrightarrow> configure_key key answer cfg = cfg"
  by (simp add: configure_key_def)

lemma configure_eventsPerPage_examples:
  "eventsPerPage (configure_key EventsPerPage ''5'' cfg) = Num 10"
  "eventsPerPage (configure_key EventsPerPage ''250'' cfg) = Num 100"
  "eventsPerPage (configure_key EventsPerPage ''42'' cfg) = Num 42"
  "configure_key EventsPerPage ''   '' cfg = cfg"
  by (simp_all add: configure_key_def Math_min_def Math_max_def parseInt_def trim_def is_ws_def
      digit_val_def)

text \<open>
  C4 at its failing input: the answer \<open>abc\<close> to the \<open>eventsPerPage\<close> question is not
  blank and holds no digit. The claim has the stored value in [10, 100]; the code stores
  \<open>NaN\<close>, since \<open>parseInt\<close> gives \<open>NaN\<close> and \<open>Math.max\<close> and \<open>Math.min\<close> pass it on.
\<close>

theorem configureDisplay_eventsPerPage_NaN:
  "configureDisplay defaultConfig ['''', '''', '''', ''abc''] =
     Some (defaultConfig\<lparr>eventsPerPage := NaN\<rparr>, [])"
  by (simp add: configureDisplay_def questions_def configure_key_def Math_min_def Math_max_def
      parseInt_def trim_def is_ws_def digit_val_def)

lemma request_per_page_NaN:
  "request_path ''octocat'' (Num 2) NaN = ''/users/octocat/events?page=2&per_page=NaN''"
  by (simp add: request_path_def show_num_def show_int_def show_nat.simps digit_def)

text \<open>
  C9 at its failing input: the answer \<open>true\<close> with a space before it, to the \<open>colors\<close>
  question, and the answer \<open>iso\<close> with a space after it, to the \<open>dateFormat\<close> question.
  The claim has them read as \<open>true\<close> and \<open>iso\<close>; \<open>configureDisplay\<close> trims an answer
  only to see whether it is blank, so it stores \<open>false\<close> for the first and the text
  with its space for the second, where the menus of the session trim their answers.
\<close>

theorem configureDisplay_answer_not_trimmed:
  "configureDisplay defaultConfig [''true'', '''', '''', ''''] = Some (defaultConfig, []) \<and>
   configureDisplay defaultConfig ['' true'', '''', '''', ''''] =
     Some (defaultConfig\<lparr>colors := False\<rparr>, []) \<and>
   configureDisplay defaultConfig ['''', ''iso'', '''', ''''] =
     Some (defaultConfig\<lparr>dateFormat := ''iso''\<rparr>, []) \<and>
   configureDisplay defaultConfig ['''', ''iso '', '''', ''''] =
     Some (defaultConfig\<lparr>dateFormat := ''iso ''\<rparr>, [])"
  by (simp add: configureDisplay_def questions_def configure_key_def trim_def is_ws_def
      toLowerCase_def lower_char_def defaultConfig_def)

section \<open>The event formatter\<close>








lemma upper_char_examples: "upper_char CHR ''o'' = ''O''" "upper_char CHR ''p'' = ''P''"
  by code_simp+




lemma formatEventTitle_degrades:
  "formatEventTitle \<lparr>e_type = ''IssuesEvent'', e_repo_name = ''r'',
                     e_payload = JObj [(''action'', JStr ''opened'')], e_created_at = d\<rparr> =
     Inr ''Opened issue #undefined in r'' \<and>
   formatEventTitle \<lparr>e_type = ''ReleaseEvent'', e_repo_name = ''r'',
                     e_payload = JObj [(''action'', JStr ''published'')], e_created_at = d\<rparr> =
     Inr ''Published release undefined in r''"
  by (simp add: formatEventTitle_def bind_def get_prop_def prop_of_def opt_prop_def nullish_def
      truthy_def capitalize_def upper_char_examples)

lemma formatDate_local_never_throws:
  "format \<noteq> ''iso'' \<Longrightarrow> \<exists>s. formatDate P d format = Inr s"
  by (simp add: formatDate_def split: option.splits)

text \<open>
  C6 at its failing inputs, under the default configuration (\<open>detailedView\<close> on): an
  \<open>IssuesEvent\<close> whose payload has no \<open>issue\<close>, a \<open>PushEvent\<close> with a commit that has
  neither \<open>sha\<close> nor \<open>message\<close>, and a \<open>ReleaseEvent\<close> whose payload has no
  \<open>release\<close>. The claim has the formatter produce a string; \<open>formatEvent\<close> throws a
  \<open>TypeError\<close>, because the detail block reads \<open>issue.title\<close>, \<open>c.sha.slice\<close> and
  \<open>release.tag_name\<close> with no guard, where \<open>formatEventTitle\<close> uses \<open>?.\<close>.
\<close>

theorem formatEvent_throws_on_missing_fields:
  "formatEvent P \<lparr>e_type = ''IssuesEvent'', e_repo_name = ''r'',
                   e_payload = JObj [(''action'', JStr ''opened'')], e_created_at = d\<rparr>
     defaultConfig =
     Inl (TypeError (''Cannot read properties of undefined (reading '' @ [CHR 0x27] @ ''title'' @
                     [CHR 0x27] @ '')'')) \<and>
   formatEvent P \<lparr>e_type = ''PushEvent'', e_repo_name = ''r'',
                   e_payload = JObj [(''commits'', JArr [JObj []])], e_created_at = d\<rparr>
     defaultConfig =
     Inl (TypeError (''Cannot read properties of undefined (reading '' @ [CHR 0x27] @ ''slice'' @
                     [CHR 0x27] @ '')'')) \<and>
   formatEvent P \<lparr>e_type = ''ReleaseEvent'', e_repo_name = ''r'',
                   e_payload = JObj [(''action'', JStr ''published'')], e_created_at = d\<rparr>
     defaultConfig =
     Inl (TypeError (''Cannot read properties of undefined (reading '' @ [CHR 0x27] @ ''tag_name'' @
                     [CHR 0x27] @ '')''))"
proof -
  obtain s where s: "formatDate P d (dateFormat defaultConfig) = Inr s"
    using formatDate_local_never_throws [of "dateFormat defaultConfig" P d]
    by (auto simp: defaultConfig_def)
  have dv: "detailedView defaultConfig" by (simp add: defaultConfig_def)
  show ?thesis
    by (simp add: formatEvent_def s dv bind_def event_details_def destructure_def show_prop_def
        get_prop_def prop_of_def truthy_def commit_line_def slice_0_7_def Let_def)
qed

lemma iteration_exits_on_format_error:
  "iteration P w user
     (initial_session
        \<lparr>currentEvents := [\<lparr>e_type = ''IssuesEvent'', e_repo_name = ''r'',
                            e_payload = JObj [(''action'', JStr ''opened'')], e_created_at = d\<rparr>]\<rparr>)
     inp fs = Exited 1 fs"
proof -
  obtain s where s: "formatDate P d (dateFormat defaultConfig) = Inr s"
    using formatDate_local_never_throws [of "dateFormat defaultConfig" P d]
    by (auto simp: defaultConfig_def)
  have dv: "detailedView defaultConfig" by (simp add: defaultConfig_def)
  have f: "formatEvent P \<lparr>e_type = ''IssuesEvent'', e_repo_name = ''r'',
                   e_payload = JObj [(''action'', JStr ''opened'')], e_created_at = d\<rparr>
             defaultConfig =
           Inl (TypeError (''Cannot read properties of undefined (reading '' @ [CHR 0x27] @ ''title'' @
                     [CHR 0x27] @ '')''))"
    by (simp add: formatEvent_def s dv bind_def event_details_def destructure_def show_prop_def
        get_prop_def prop_of_def truthy_def Let_def)
  show ?thesis
    by (simp add: iteration_def initial_session_def filterEvents_def passes_def no_criteria_def f)
qed

section \<open>The file exporter\<close>

lemma saveToFile_writes:
  "saveToFile P w events user cfg fs = Inr fs' \<Longrightarrow>
   fs' = fs(export_path P w user cfg \<mapsto> JSON_stringify P events)"
  by (auto simp: saveToFile_def Let_def split: option.splits)




end
